theory Spec2Isabelle
  imports Complex_Main "HOL-Library.Word"
begin

section \<open>Python errors\<close>

text \<open>
  The notebooks are Python. A raised exception is a value: every function that can raise
  returns \<open>py_error + 'a\<close>, with \<open>Inl\<close> carrying the exception.
\<close>

datatype py_error = ValueError | KeyError | ZeroDivisionError | TypeError

section \<open>Monte Carlo sampling: \<open>multi_sample\<close>\<close>

text \<open>
  The source (the same body appears twice, once under \<open>@delayed\<close>, once plain):
  \<^verbatim>\<open>
  def multi_sample(n):
      total = 0
      for i in range(n):
          x = random.uniform(0, 1)
          y = random.uniform(0, 1)
          d = x*x + y*y
          if d < 1:
              total += 1
      return total
  \<close>
  The module-level random generator is state. It is modelled by the sequence of numbers it
  is going to hand out; each call of \<open>random.uniform\<close> takes the head and leaves the rest.
  No assumption is made on the numbers drawn, so a statement about every generator is a
  statement about every outcome of the draws.
\<close>

type_synonym rng = "nat \<Rightarrow> real"

definition uniform :: "rng \<Rightarrow> real \<times> rng" where
  "uniform g = (g 0, \<lambda>i. g (Suc i))"

text \<open>
  The \<open>for\<close> loop, by the number of iterations still to run; \<open>total\<close> and the
  generator are threaded through.
\<close>

fun sample_loop :: "nat \<Rightarrow> rng \<Rightarrow> int \<Rightarrow> int \<times> rng" where
  "sample_loop 0 g tot = (tot, g)"
| "sample_loop (Suc k) g tot =
     (case uniform g of (x, g1) \<Rightarrow>
      case uniform g1 of (y, g2) \<Rightarrow>
        let d = x * x + y * y
        in sample_loop k g2 (if d < 1 then tot + 1 else tot))"

text \<open>\<open>range(n)\<close> runs \<open>n\<close> times, and not at all when \<open>n\<close> is negative.\<close>

definition multi_sample :: "rng \<Rightarrow> int \<Rightarrow> int \<times> rng" where
  "multi_sample g n = sample_loop (nat n) g 0"

text \<open>
  The estimate of pi derived from a batch: the notebook computes
  \<^verbatim>\<open>result * 4.0 / batch_size\<close> where \<open>result\<close> is what
  \<open>multi_sample(batch_size)\<close> returned. Python's true division raises
  \<open>ZeroDivisionError\<close> on a zero divisor.
\<close>

definition pi_estimate :: "int \<Rightarrow> int \<Rightarrow> py_error + real" where
  "pi_estimate result batch_size =
     (if batch_size = 0 then Inl ZeroDivisionError
      else Inr (real_of_int result * 4 / real_of_int batch_size))"

text \<open>A generator for test runs: every draw is the same number.\<close>

definition const_rng :: "real \<Rightarrow> rng" where
  "const_rng c = (\<lambda>i. c)"

section \<open>The toy partitioned dataframe\<close>

text \<open>
  A dataframe of the toy example is a Python list of pandas frames, its partitions, each
  read by \<open>pd.read_csv(..., names=schema, header=0)\<close>. pandas is not part of the
  repository. What the three functions below use of it is modelled as follows.

  A frame has an index (one label per row) and columns under distinct labels
  (\<open>read_csv\<close> refuses repeated names). A column has a dtype. Two dtypes are modelled
  cell by cell: \<open>int64\<close>, which \<open>read_csv\<close> gives a column of integers, and the object
  column whose cells are all Python strings, which it gives a column of text (and, with no
  cells, a partition read past the end of the file). A column of any other dtype (float64,
  uint64, bool, object cells that are not strings) is carried as it is, and what pandas
  and Python do with it is a parameter of the model: nothing is assumed of it.
\<close>

datatype 'x column = Int64Col "64 word list" | StrCol "string list" | OtherCol 'x

record 'x frame =
  index :: "int list"
  columns :: "string \<rightharpoonup> 'x column"

text \<open>
  The Python values that the sums produce: the builtin integer 0, a numpy \<open>int64\<close>
  scalar, a string, or a value of another type.
\<close>

datatype 'y pyval = PyZero | NpInt64 "64 word" | PyStr string | OtherVal 'y

text \<open>
  The parameters: the sum of a column of another dtype; Python's \<open>+\<close> when an operand
  is a value of another type; and the column \<open>pd.concat\<close> builds under one label when
  the partitions' columns under it are not all int64 and not all strings. The last one is
  given, for each partition in order, its number of rows and its column under the label,
  if it has one.
\<close>

record ('x, 'y) other_dtypes =
  other_sum :: "'x \<Rightarrow> py_error + 'y pyval"
  other_add :: "'y pyval \<Rightarrow> 'y pyval \<Rightarrow> py_error + 'y pyval"
  promote :: "(nat \<times> 'x column option) list \<Rightarrow> 'x column"


text \<open>\<open>p[col]\<close>: the column, \<open>KeyError\<close> when the label is not a column.\<close>

definition getitem :: "'x frame \<Rightarrow> string \<Rightarrow> py_error + 'x column" where
  "getitem p col = (case columns p col of None \<Rightarrow> Inl KeyError | Some c \<Rightarrow> Inr c)"

text \<open>
  \<open>Series.sum()\<close>. An int64 column sums in int64, wrapping around silently. An object
  column of strings sums by \<open>+\<close> on its cells, which concatenates them; without cells the
  sum is the integer 0.
\<close>

definition series_sum :: "('x, 'y) other_dtypes \<Rightarrow> 'x column \<Rightarrow> py_error + 'y pyval" where
  "series_sum P c =
     (case c of
        Int64Col xs \<Rightarrow> Inr (NpInt64 (sum_list xs))
      | StrCol ss \<Rightarrow> (if ss = [] then Inr PyZero else Inr (PyStr (concat ss)))
      | OtherCol x \<Rightarrow> other_sum P x)"

text \<open>
  Python's \<open>a + b\<close> on these values. The integer 0 leaves an int64 scalar as it is; two
  int64 scalars add with wrap-around (numpy only warns); two strings concatenate; a
  string and a number raise \<open>TypeError\<close>.
\<close>

fun py_add :: "('x, 'y) other_dtypes \<Rightarrow> 'y pyval \<Rightarrow> 'y pyval \<Rightarrow> py_error + 'y pyval" where
  "py_add P PyZero PyZero = Inr PyZero"
| "py_add P PyZero (NpInt64 y) = Inr (NpInt64 y)"
| "py_add P (NpInt64 x) PyZero = Inr (NpInt64 x)"
| "py_add P (NpInt64 x) (NpInt64 y) = Inr (NpInt64 (x + y))"
| "py_add P (PyStr s) (PyStr t) = Inr (PyStr (s @ t))"
| "py_add P (OtherVal a) b = other_add P (OtherVal a) b"
| "py_add P a (OtherVal b) = other_add P a (OtherVal b)"
| "py_add P a b = Inl TypeError"

text \<open>
  \<open>pd.concat(objs)\<close> along the rows. It raises \<open>ValueError\<close> when there is nothing to
  concatenate. Otherwise the indexes follow each other, and the result has a column under
  every label that some frame has. Columns of one dtype keep it, their cells following
  each other; every other case (a label missing from a frame, dtypes that differ) is the
  parameter's.
\<close>

fun int64_chunks :: "'x column option list \<Rightarrow> 64 word list list option" where
  "int64_chunks [] = Some []"
| "int64_chunks (Some (Int64Col xs) # cs) = map_option ((#) xs) (int64_chunks cs)"
| "int64_chunks (c # cs) = None"

fun str_chunks :: "'x column option list \<Rightarrow> string list list option" where
  "str_chunks [] = Some []"
| "str_chunks (Some (StrCol ss) # cs) = map_option ((#) ss) (str_chunks cs)"
| "str_chunks (c # cs) = None"

definition concat_column ::
  "('x, 'y) other_dtypes \<Rightarrow> (nat \<times> 'x column option) list \<Rightarrow> 'x column option" where
  "concat_column P parts =
     (if list_all (\<lambda>part. snd part = None) parts then None
      else case int64_chunks (map snd parts) of
             Some xss \<Rightarrow> Some (Int64Col (concat xss))
           | None \<Rightarrow>
               (case str_chunks (map snd parts) of
                  Some sss \<Rightarrow> Some (StrCol (concat sss))
                | None \<Rightarrow> Some (promote P parts)))"

definition pd_concat :: "('x, 'y) other_dtypes \<Rightarrow> 'x frame list \<Rightarrow> py_error + 'x frame" where
  "pd_concat P objs =
     (if objs = [] then Inl ValueError
      else Inr \<lparr> index = concat (map index objs),
                 columns = (\<lambda>l. concat_column P
                                  (map (\<lambda>p. (length (index p), columns p l)) objs)) \<rparr>)"

text \<open>
  \<^verbatim>\<open>
  def whole_frame(df):
      return pd.concat([p for p in df])
  \<close>
\<close>

definition whole_frame :: "('x, 'y) other_dtypes \<Rightarrow> 'x frame list \<Rightarrow> py_error + 'x frame" where
  "whole_frame P df = pd_concat P (map (\<lambda>p. p) df)"



text \<open>
  \<^verbatim>\<open>
  def df_sum(df, col):
      return sum(p[col].sum() for p in df)
  \<close>
  Each item is computed when \<open>sum\<close> asks for it, so the first partition whose \<open>p[col]\<close>,
  whose \<open>.sum()\<close> or whose addition to the running sum raises ends the call.
\<close>

fun df_sum_loop ::
  "('x, 'y) other_dtypes \<Rightarrow> 'x frame list \<Rightarrow> string \<Rightarrow> 'y pyval \<Rightarrow> py_error + 'y pyval" where
  "df_sum_loop P [] col acc = Inr acc"
| "df_sum_loop P (p # ps) col acc =
     (case getitem p col of
        Inl e \<Rightarrow> Inl e
      | Inr c \<Rightarrow>
          (case series_sum P c of
             Inl e \<Rightarrow> Inl e
           | Inr v \<Rightarrow>
               (case py_add P acc v of
                  Inl e \<Rightarrow> Inl e
                | Inr acc' \<Rightarrow> df_sum_loop P ps col acc')))"

definition df_sum ::
  "('x, 'y) other_dtypes \<Rightarrow> 'x frame list \<Rightarrow> string \<Rightarrow> py_error + 'y pyval" where
  "df_sum P df col = df_sum_loop P df col PyZero"


definition whole_sum ::
  "('x, 'y) other_dtypes \<Rightarrow> 'x frame list \<Rightarrow> string \<Rightarrow> py_error + 'y pyval" where
  "whole_sum P df col =
     (case whole_frame P df of
        Inl e \<Rightarrow> Inl e
      | Inr w \<Rightarrow> (case getitem w col of Inl e \<Rightarrow> Inl e | Inr c \<Rightarrow> series_sum P c))"




text \<open>
  Test data: three partitions under the notebook's schema \<open>['player', 'points']\<close>, of 2, 2
  and 1 rows, and the dataframe of no partitions (\<open>load_big_df\<close> with
  \<open>partition_count = 0\<close>). These frames have int64 and string columns under the same
  labels only, so the parameters are never consulted on them; \<open>unused\<close> fills the place in
  closed statements.
\<close>

definition toy_partition :: "string list \<Rightarrow> 64 word list \<Rightarrow> 'x frame" where
  "toy_partition players points =
     \<lparr> index = map int [0 ..< length players],
       columns = [''player'' \<mapsto> StrCol players, ''points'' \<mapsto> Int64Col points] \<rparr>"

definition toy_df :: "'x frame list" where
  "toy_df =
     [toy_partition [''ann'', ''bob''] [10, 7],
      toy_partition [''cy'', ''dee''] [3, 12],
      toy_partition [''eve''] [5]]"



section \<open>Properties of the sampling loop\<close>

lemma sample_loop_bounds:
  "tot \<le> fst (sample_loop k g tot) \<and> fst (sample_loop k g tot) \<le> tot + int k"
proof (induction k arbitrary: g tot)
  case 0
  show ?case by simp
next
  case (Suc k)
  obtain x g1 where u1: "uniform g = (x, g1)" by (cases "uniform g")
  obtain y g2 where u2: "uniform g1 = (y, g2)" by (cases "uniform g1")
  let ?t = "if x * x + y * y < 1 then tot + 1 else tot"
  have step: "sample_loop (Suc k) g tot = sample_loop k g2 ?t"
    using u1 u2 by (simp add: Let_def)
  have "?t \<le> fst (sample_loop k g2 ?t)" "fst (sample_loop k g2 ?t) \<le> ?t + int k"
    using Suc.IH [of ?t g2] by blast+
  moreover have "tot \<le> ?t" "?t \<le> tot + 1" by simp_all
  ultimately show ?case unfolding step by simp
qed

lemma multi_sample_range:
  "0 \<le> fst (multi_sample g n) \<and> fst (multi_sample g n) \<le> max 0 n"
  using sample_loop_bounds [of 0 "nat n" g] by (simp add: multi_sample_def max_def)

lemma multi_sample_all_hits:
  "fst (multi_sample (const_rng (1/2)) 3) = 3"
  by (simp add: multi_sample_def const_rng_def uniform_def eval_nat_numeral)

lemma multi_sample_no_hit:
  "fst (multi_sample (const_rng 1) 3) = 0"
  by (simp add: multi_sample_def const_rng_def uniform_def eval_nat_numeral)

text \<open>
  C10, as stated: for every \<open>n \<ge> 0\<close> and every outcome of the draws the total lies
  between 0 and \<open>n\<close>, so the estimate \<open>4*total/n\<close> always lies in \<open>[0, 4]\<close>. At
  \<open>n = 0\<close> the loop does not run, the total is 0, and the division raises
  \<open>ZeroDivisionError\<close>: there is no estimate.
\<close>

theorem pi_estimate_zero_batch_counterexample:
  "fst (multi_sample (const_rng 0) 0) = 0 \<and>
   pi_estimate (fst (multi_sample (const_rng 0) 0)) 0 = Inl ZeroDivisionError"
  by (simp add: multi_sample_def pi_estimate_def)

text \<open>
  C10, amended: for every \<open>n \<ge> 0\<close> and every outcome of the draws, \<open>multi_sample(n)\<close>
  returns a total with \<open>0 \<le> total \<le> n\<close>; for every \<open>n > 0\<close> the estimate
  \<open>4*total/n\<close> is computed and lies in \<open>[0, 4]\<close>; at \<open>n = 0\<close> the division raises
  \<open>ZeroDivisionError\<close>.
\<close>

theorem multi_sample_total_and_estimate:
  assumes "0 \<le> n"
  shows "0 \<le> fst (multi_sample g n) \<and> fst (multi_sample g n) \<le> n \<and>
         (0 < n \<longrightarrow> (\<exists>e. pi_estimate (fst (multi_sample g n)) n = Inr e \<and> 0 \<le> e \<and> e \<le> 4)) \<and>
         pi_estimate (fst (multi_sample g 0)) 0 = Inl ZeroDivisionError"
proof -
  let ?t = "fst (multi_sample g n)"
  have lo: "0 \<le> ?t" and hi: "?t \<le> n"
    using multi_sample_range [of g n] assms by simp_all
  have est: "\<exists>e. pi_estimate ?t n = Inr e \<and> 0 \<le> e \<and> e \<le> 4" if pos: "0 < n"
  proof -
    let ?e = "real_of_int ?t * 4 / real_of_int n"
    have "pi_estimate ?t n = Inr ?e" using pos by (simp add: pi_estimate_def)
    moreover have "0 \<le> ?e" using lo pos by simp
    moreover have "?e \<le> 4"
    proof -
      have "real_of_int ?t * 4 \<le> 4 * real_of_int n" using hi by simp
      then show ?thesis using pos by (simp add: field_simps)
    qed
    ultimately show ?thesis by blast
  qed
  have zero: "pi_estimate (fst (multi_sample g 0)) 0 = Inl ZeroDivisionError"
    by (simp add: pi_estimate_def)
  show ?thesis using lo hi est zero by blast
qed

theorem multi_sample_total_and_estimate_witness:
  "(0::int) \<le> 3 \<and> (0::int) < 3 \<and>
   0 \<le> fst (multi_sample (const_rng (1/2)) 3) \<and>
   fst (multi_sample (const_rng (1/2)) 3) \<le> 3 \<and>
   (\<exists>e. pi_estimate (fst (multi_sample (const_rng (1/2)) 3)) 3 = Inr e \<and> 0 \<le> e \<and> e \<le> 4) \<and>
   pi_estimate (fst (multi_sample (const_rng (1/2)) 0)) 0 = Inl ZeroDivisionError"
  using multi_sample_total_and_estimate [of 3 "const_rng (1/2)"] by simp

section \<open>Properties of the partition-wise aggregations\<close>

subsection \<open>Row counts\<close>





subsection \<open>Sums of an int64 column\<close>







subsection \<open>A label that is no column\<close>



subsection \<open>Test runs\<close>



lemma toy_whole_sum_points: "whole_sum P toy_df ''points'' = Inr (NpInt64 37)"
  by (simp add: toy_df_def toy_partition_def whole_sum_def whole_frame_def pd_concat_def
      concat_column_def getitem_def series_sum_def)



lemma int64_wraps_alike:
  "df_sum P [toy_partition [''ann''] [9223372036854775807], toy_partition [''bob''] [1]] ''points''
     = Inr (NpInt64 (- 9223372036854775808)) \<and>
   whole_sum P [toy_partition [''ann''] [9223372036854775807], toy_partition [''bob''] [1]] ''points''
     = Inr (NpInt64 (- 9223372036854775808))"
  by (simp add: toy_partition_def df_sum_def whole_sum_def whole_frame_def pd_concat_def
      concat_column_def getitem_def series_sum_def)




end
